theory Spec2Isabelle
  imports Main
begin

section \<open>Data model (shared schema)\<close>

text \<open>
  The rows of the tables \<open>users\<close>, \<open>transactions\<close> and \<open>otp_codes\<close>, with the columns the
  modelled routes read or write. Serial primary keys are natural numbers.

  Balances and amounts are double-precision numbers in the source. The model takes the
  integer-valued ones: a number is an \<open>int\<close>, and every sum or difference the code
  computes is rounded by \<open>dbl\<close> as the double arithmetic rounds it (to 53 significant
  bits, ties to even; overflow to infinity, beyond \<open>2^1024\<close>, is left out). Where
  operands and result have magnitude at most \<open>2^53\<close> the arithmetic is exact
  (\<open>safe_int\<close>); the theorems that state a balance after a transfer carry that
  condition. Fractional numbers and a request body whose amount is not a JSON number
  are outside the model.
\<close>

fun bit_length :: "nat \<Rightarrow> nat" where
  "bit_length n = (if n = 0 then 0 else Suc (bit_length (n div 2)))"

definition safe_int :: "int \<Rightarrow> bool" where
  "safe_int x \<longleftrightarrow> \<bar>x\<bar> \<le> 2 ^ 53"

definition dbl :: "int \<Rightarrow> int" where
  "dbl x =
     (if \<bar>x\<bar> \<le> 2 ^ 53 then x
      else (let e = bit_length (nat \<bar>x\<bar>) - 53;
                q = \<bar>x\<bar> div 2 ^ e;
                r = \<bar>x\<bar> mod 2 ^ e;
                m = (if 2 * r < 2 ^ e then q
                     else if 2 ^ e < 2 * r then q + 1
                     else if even q then q else q + 1)
            in sgn x * m * 2 ^ e))"

record user =
  uid :: nat
  name :: string
  email :: string
  password :: string
  balance :: int
  isVerified :: bool
  isAdmin :: bool

record transaction =
  t_id :: nat
  t_amount :: int
  t_senderId :: nat
  t_receiverId :: "nat option"
  t_note :: "string option"
  t_status :: string

record otpCode =
  o_id :: nat
  o_userId :: "nat option"
  o_email :: string
  o_code :: string
  o_purpose :: string
  o_expiresAt :: nat
  o_isUsed :: bool

text \<open>
  The state of the server: the database and the mail transporter. \<open>tx_seq\<close> is the serial
  sequence of \<open>transactions.id\<close>. Every storage method awaits a query, and a query may
  reject: \<open>fail_in = Some n\<close> lets the next \<open>n\<close> queries succeed and makes the one after
  them reject; \<open>fail_in = None\<close> means that no query rejects. \<open>transporter\<close> says whether
  the mail module holds a transporter, and \<open>smtp_down\<close> whether creating one rejects.
\<close>

record store =
  users :: "user list"
  transactions :: "transaction list"
  otpCodes :: "otpCode list"
  tx_seq :: nat
  fail_in :: "nat option"
  transporter :: bool
  smtp_down :: bool

datatype error = QueryFailed | NotNullViolation | MailError | ZodError | TypeError

text \<open>
  The environment of the routes: \<open>hashPassword\<close> and \<open>comparePasswords\<close> of the
  authentication module, the e-mail format check of the validation library, the
  environment variable \<open>COINE_API_KEY\<close>, and the clock read by \<open>new Date()\<close>. The two
  password functions and the format check enter as parameters, so every theorem holds
  for any hash, any comparison and any format.
\<close>

record env =
  hashPassword :: "string \<Rightarrow> string"
  comparePasswords :: "string \<Rightarrow> string \<Rightarrow> bool"
  isEmail :: "string \<Rightarrow> bool"
  COINE_API_KEY :: "string option"
  now :: nat

section \<open>Storage layer (class DatabaseStorage)\<close>

definition tick :: "store \<Rightarrow> error + store" where
  "tick s = (case fail_in s of
               None \<Rightarrow> Inr s
             | Some 0 \<Rightarrow> Inl QueryFailed
             | Some (Suc n) \<Rightarrow> Inr (s\<lparr>fail_in := Some n\<rparr>))"

definition getUser :: "store \<Rightarrow> nat \<Rightarrow> error + (store \<times> user option)" where
  "getUser s i = (case tick s of
                    Inl e \<Rightarrow> Inl e
                  | Inr s' \<Rightarrow> Inr (s', find (\<lambda>u. uid u = i) (users s')))"

definition getUserByEmail :: "store \<Rightarrow> string \<Rightarrow> error + (store \<times> user option)" where
  "getUserByEmail s e = (case tick s of
                           Inl x \<Rightarrow> Inl x
                         | Inr s' \<Rightarrow> Inr (s', find (\<lambda>u. email u = e) (users s')))"

text \<open>\<open>Partial<User>\<close>: the columns an update sets.\<close>

record user_patch =
  p_name :: "string option"
  p_email :: "string option"
  p_password :: "string option"
  p_balance :: "int option"
  p_isVerified :: "bool option"

definition no_patch :: user_patch where
  "no_patch = \<lparr>p_name = None, p_email = None, p_password = None, p_balance = None,
                p_isVerified = None\<rparr>"

definition apply_patch :: "user_patch \<Rightarrow> user \<Rightarrow> user" where
  "apply_patch p u =
     u\<lparr>name := (case p_name p of None \<Rightarrow> name u | Some n \<Rightarrow> n),
       email := (case p_email p of None \<Rightarrow> email u | Some e \<Rightarrow> e),
       password := (case p_password p of None \<Rightarrow> password u | Some w \<Rightarrow> w),
       balance := (case p_balance p of None \<Rightarrow> balance u | Some b \<Rightarrow> b),
       isVerified := (case p_isVerified p of None \<Rightarrow> isVerified u | Some v \<Rightarrow> v)\<rparr>"

text \<open>
  \<open>updateUser\<close>: a password in the patch that is truthy (a non-empty string) is hashed
  first; then every row with the given id is updated and the first updated row returned.
\<close>

definition hash_patch :: "env \<Rightarrow> user_patch \<Rightarrow> user_patch" where
  "hash_patch ev p = (case p_password p of
                        None \<Rightarrow> p
                      | Some w \<Rightarrow> if w \<noteq> [] then p\<lparr>p_password := Some (hashPassword ev w)\<rparr> else p)"

definition updateUser :: "env \<Rightarrow> store \<Rightarrow> nat \<Rightarrow> user_patch \<Rightarrow> error + (store \<times> user option)" where
  "updateUser ev s i p =
     (case tick s of
        Inl e \<Rightarrow> Inl e
      | Inr s' \<Rightarrow>
          (let us = map (\<lambda>u. if uid u = i then apply_patch (hash_patch ev p) u else u) (users s')
           in Inr (s'\<lparr>users := us\<rparr>, find (\<lambda>u. uid u = i) us)))"

text \<open>
  \<open>createTransaction\<close>: the insert takes the next serial id; no route passes a status, so
  the column default \<open>completed\<close> applies. The column \<open>amount\<close> is not nullable: an insert
  without an amount is rejected by the database.
\<close>

definition createTransaction ::
    "store \<Rightarrow> int option \<Rightarrow> nat \<Rightarrow> nat \<Rightarrow> string option \<Rightarrow> error + (store \<times> transaction)" where
  "createTransaction s a sid rid n =
     (case tick s of
        Inl e \<Rightarrow> Inl e
      | Inr s' \<Rightarrow>
          (case a of
             None \<Rightarrow> Inl NotNullViolation
           | Some v \<Rightarrow>
               (let t = \<lparr>t_id = Suc (tx_seq s'), t_amount = v, t_senderId = sid,
                         t_receiverId = Some rid, t_note = n, t_status = ''completed''\<rparr>
                in Inr (s'\<lparr>transactions := transactions s' @ [t],
                          tx_seq := Suc (tx_seq s')\<rparr>, t))))"

text \<open>
  \<open>getOtpCode\<close>: the first code row for this e-mail, code and purpose that is unused and
  has not expired. \<open>markOtpAsUsed\<close> sets the flag on every row with the id.
\<close>

definition getOtpCode ::
    "env \<Rightarrow> store \<Rightarrow> string \<Rightarrow> string \<Rightarrow> string \<Rightarrow> error + (store \<times> otpCode option)" where
  "getOtpCode ev s e c p =
     (case tick s of
        Inl x \<Rightarrow> Inl x
      | Inr s' \<Rightarrow>
          Inr (s', find (\<lambda>x. o_email x = e \<and> o_code x = c \<and> o_purpose x = p \<and>
                              \<not> o_isUsed x \<and> now ev \<le> o_expiresAt x) (otpCodes s')))"

definition markOtpAsUsed :: "store \<Rightarrow> nat \<Rightarrow> error + store" where
  "markOtpAsUsed s i =
     (case tick s of
        Inl x \<Rightarrow> Inl x
      | Inr s' \<Rightarrow>
          Inr (s'\<lparr>otpCodes := map (\<lambda>x. if o_id x = i then x\<lparr>o_isUsed := True\<rparr> else x)
                                  (otpCodes s')\<rparr>))"

section \<open>Mail module\<close>

text \<open>
  \<open>sendEmail\<close> creates the transporter when the module holds none, and that can reject;
  an error of the delivery itself is caught and logged. The notification of a transfer
  sends one message to the sender and one to the receiver; the low-balance warning sends
  one message.
\<close>

definition sendEmail :: "store \<Rightarrow> error + store" where
  "sendEmail s =
     (if transporter s then Inr s
      else if smtp_down s then Inl MailError
      else Inr (s\<lparr>transporter := True\<rparr>))"

definition sendTransactionNotificationEmail :: "store \<Rightarrow> error + store" where
  "sendTransactionNotificationEmail s =
     (case sendEmail s of
        Inl e \<Rightarrow> Inl e
      | Inr s' \<Rightarrow> sendEmail s')"

definition sendLowBalanceWarningEmail :: "store \<Rightarrow> error + store" where
  "sendLowBalanceWarningEmail s = sendEmail s"

section \<open>Requests and responses\<close>

text \<open>
  The body of a transfer request. The string fields are strings, an absent one being the
  empty string (the routes that test them test their truthiness, where the two agree).
  The amount is a JSON number or absent (\<open>None\<close>). \<open>to_email\<close> is the field \<open>to\<close>, and
  \<open>req_password\<close>, \<open>req_note\<close> are the fields \<open>password\<close>, \<open>note\<close>. \<open>idempotencyKey\<close> is a
  field a client may send; no route reads it.
\<close>

record transfer_body =
  receiverEmail :: string
  senderEmail :: string
  to_email :: string
  amount :: "int option"
  req_password :: string
  req_note :: string
  idempotencyKey :: string

datatype payload =
    Message string
  | ErrorMessage string string
  | ErrorOnly string
  | WithTransaction string transaction
  | WithBalance string transaction int
  | ExternalDone int int
  | PasswordJson string
  | VerificationRequired string
  | UserJson nat string string int bool bool

text \<open>
  What a handler does with a request: answer with a status and a JSON body, pass an
  error to \<open>next\<close>, call \<open>next()\<close>, or (an async handler without \<open>try\<close>) leave a
  rejected query unhandled and the request unanswered.
\<close>

datatype outcome = Respond nat payload | Forward error | Next | Unhandled error

definition balance_patch :: "int \<Rightarrow> user_patch" where
  "balance_patch b = no_patch\<lparr>p_balance := Some b\<rparr>"

definition note_or_null :: "string \<Rightarrow> string option" where
  "note_or_null n = (if n = [] then None else Some n)"

section \<open>Transfer routes\<close>

text \<open>
  POST /api/user/transfer, after \<open>isAuthenticated\<close>; \<open>sender\<close> is \<open>req.user\<close>. After the
  balances are written the handler awaits the notification and, when the sender is left
  with less than 1000, the low-balance warning; a rejection there is forwarded like any
  other error of the \<open>try\<close> block.
\<close>

definition user_transfer :: "env \<Rightarrow> store \<Rightarrow> user \<Rightarrow> transfer_body \<Rightarrow> store \<times> outcome" where
  "user_transfer ev s sender b =
     (case amount b of
        None \<Rightarrow> (s, Respond 400 (Message ''Receiver email, amount and password are required''))
      | Some a \<Rightarrow>
     (if receiverEmail b = [] \<or> a = 0 \<or> req_password b = [] then
        (s, Respond 400 (Message ''Receiver email, amount and password are required''))
      else (case getUserByEmail s (receiverEmail b) of
        Inl e \<Rightarrow> (s, Forward e)
      | Inr (s1, None) \<Rightarrow> (s1, Respond 404 (Message ''Receiver not found''))
      | Inr (s1, Some receiver) \<Rightarrow>
          (if uid sender = uid receiver then
            (s1, Respond 400 (Message ''Cannot send money to yourself''))
          else if balance sender < a then
            (s1, Respond 400 (Message ''Insufficient balance''))
          else if \<not> comparePasswords ev (req_password b) (password sender) then
            (s1, Respond 401 (Message ''Incorrect password''))
          else (case createTransaction s1 (Some a) (uid sender) (uid receiver)
                      (note_or_null (req_note b)) of
            Inl e \<Rightarrow> (s1, Forward e)
          | Inr (s2, t) \<Rightarrow>
              (case updateUser ev s2 (uid sender) (balance_patch (dbl (balance sender - a))) of
                 Inl e \<Rightarrow> (s2, Forward e)
               | Inr (s3, _) \<Rightarrow>
                   (case updateUser ev s3 (uid receiver)
                           (balance_patch (dbl (balance receiver + a))) of
                      Inl e \<Rightarrow> (s3, Forward e)
                    | Inr (s4, _) \<Rightarrow>
                        (case sendTransactionNotificationEmail s4 of
                           Inl e \<Rightarrow> (s4, Forward e)
                         | Inr s5 \<Rightarrow>
                             (case (if dbl (balance sender - a) < 1000
                                    then sendLowBalanceWarningEmail s5 else Inr s5) of
                                Inl e \<Rightarrow> (s5, Forward e)
                              | Inr s6 \<Rightarrow>
                                  (s6, Respond 201
                                         (WithBalance ''Transaction successful'' t
                                            (dbl (balance sender - a)))))))))))))"

text \<open>
  POST /api/transactions/send-money, after \<open>isAuthenticated\<close>. The body is used as it
  arrives (\<open>sendMoneySchema\<close> is imported and not applied): an absent amount passes the
  balance check, whose comparison with \<open>undefined\<close> is false, and fails the insert. After
  the insert the amount is the one of the inserted row.
\<close>

definition send_money :: "env \<Rightarrow> store \<Rightarrow> user \<Rightarrow> transfer_body \<Rightarrow> store \<times> outcome" where
  "send_money ev s sender b =
     (case getUserByEmail s (receiverEmail b) of
        Inl e \<Rightarrow> (s, Forward e)
      | Inr (s1, None) \<Rightarrow> (s1, Respond 404 (Message ''Receiver not found''))
      | Inr (s1, Some receiver) \<Rightarrow>
          (if uid sender = uid receiver then
            (s1, Respond 400 (Message ''Cannot send money to yourself''))
          else if (case amount b of None \<Rightarrow> False | Some a \<Rightarrow> balance sender < a) then
            (s1, Respond 400 (Message ''Insufficient balance''))
          else if \<not> comparePasswords ev (req_password b) (password sender) then
            (s1, Respond 401 (Message ''Incorrect password''))
          else (case createTransaction s1 (amount b) (uid sender) (uid receiver)
                      (note_or_null (req_note b)) of
            Inl e \<Rightarrow> (s1, Forward e)
          | Inr (s2, t) \<Rightarrow>
              (case updateUser ev s2 (uid sender)
                      (balance_patch (dbl (balance sender - t_amount t))) of
                 Inl e \<Rightarrow> (s2, Forward e)
               | Inr (s3, _) \<Rightarrow>
                   (case updateUser ev s3 (uid receiver)
                           (balance_patch (dbl (balance receiver + t_amount t))) of
                      Inl e \<Rightarrow> (s3, Forward e)
                    | Inr (s4, _) \<Rightarrow>
                        (case sendTransactionNotificationEmail s4 of
                           Inl e \<Rightarrow> (s4, Forward e)
                         | Inr s5 \<Rightarrow>
                             (case (if dbl (balance sender - t_amount t) < 1000
                                    then sendLowBalanceWarningEmail s5 else Inr s5) of
                                Inl e \<Rightarrow> (s5, Forward e)
                              | Inr s6 \<Rightarrow>
                                  (s6, Respond 201
                                         (WithTransaction ''Transaction successful'' t)))))))))"

text \<open>
  POST /api/transfer as registered with \<open>isAuthenticated\<close>: the balances are updated
  first and the transaction row is inserted afterwards.
\<close>

definition session_transfer :: "env \<Rightarrow> store \<Rightarrow> user \<Rightarrow> transfer_body \<Rightarrow> store \<times> outcome" where
  "session_transfer ev s sender b =
     (case amount b of
        None \<Rightarrow> (s, Respond 400 (ErrorMessage ''Invalid input''
                                    ''Sender email, receiver email, and amount are required''))
      | Some a \<Rightarrow>
     (if senderEmail b = [] \<or> receiverEmail b = [] \<or> a = 0 then
        (s, Respond 400 (ErrorMessage ''Invalid input''
                           ''Sender email, receiver email, and amount are required''))
      else if senderEmail b \<noteq> email sender then
        (s, Respond 403 (ErrorMessage ''Invalid input''
                           ''Sender email does not match authenticated user''))
      else (case getUserByEmail s (receiverEmail b) of
        Inl e \<Rightarrow> (s, Forward e)
      | Inr (s1, None) \<Rightarrow>
          (s1, Respond 404 (ErrorMessage ''Receiver not found''
                              ''Receiver email not found in our records''))
      | Inr (s1, Some receiver) \<Rightarrow>
          (if uid sender = uid receiver then
            (s1, Respond 400 (ErrorMessage ''Invalid input'' ''Cannot send money to yourself''))
          else if balance sender < a then
            (s1, Respond 400 (ErrorMessage ''Insufficient balance''
                                ''You do not have enough balance to complete this transaction''))
          else (case updateUser ev s1 (uid sender) (balance_patch (dbl (balance sender - a))) of
            Inl e \<Rightarrow> (s1, Forward e)
          | Inr (s2, _) \<Rightarrow>
              (case updateUser ev s2 (uid receiver)
                      (balance_patch (dbl (balance receiver + a))) of
                 Inl e \<Rightarrow> (s2, Forward e)
               | Inr (s3, _) \<Rightarrow>
                   (case createTransaction s3 (Some a) (uid sender) (uid receiver)
                           (note_or_null (req_note b)) of
                      Inl e \<Rightarrow> (s3, Forward e)
                    | Inr (s4, t) \<Rightarrow>
                        (case sendTransactionNotificationEmail s4 of
                           Inl e \<Rightarrow> (s4, Forward e)
                         | Inr s5 \<Rightarrow>
                             (case (if dbl (balance sender - a) < 1000
                                    then sendLowBalanceWarningEmail s5 else Inr s5) of
                                Inl e \<Rightarrow> (s5, Forward e)
                              | Inr s6 \<Rightarrow>
                                  (s6, Respond 201
                                         (WithTransaction ''Transfer successful'' t)))))))))))"

text \<open>
  The handler registered on POST /api/transfer by the server's entry file, before it calls
  \<open>registerRoutes\<close>. It compares the second word of the Authorization header with
  \<open>VALID_API_KEY\<close>, reads both accounts, and answers every request itself: an error
  inside \<open>try\<close> is answered with status 500. It sends no mail. (The text of the success
  message, which quotes the amount, is left out of the payload.)
\<close>

fun split_space :: "string \<Rightarrow> string list" where
  "split_space [] = [[]]"
| "split_space (c # cs) =
     (if c = CHR '' '' then [] # split_space cs
      else (case split_space cs of
              [] \<Rightarrow> [[c]]
            | w # ws \<Rightarrow> (c # w) # ws))"

definition bearer_token :: "string option \<Rightarrow> string option" where
  "bearer_token h =
     (case h of
        None \<Rightarrow> None
      | Some a \<Rightarrow>
          if a = [] then Some []
          else (case split_space a of
                  _ # t # _ \<Rightarrow> Some t
                | _ \<Rightarrow> None))"

definition VALID_API_KEY :: "env \<Rightarrow> string" where
  "VALID_API_KEY ev =
     (case COINE_API_KEY ev of
        None \<Rightarrow> ''seium1234554321''
      | Some k \<Rightarrow> if k = [] then ''seium1234554321'' else k)"

record request =
  req_method :: string
  req_path :: string
  authorization :: "string option"
  req_user :: "user option"
  body :: transfer_body

definition external_transfer :: "env \<Rightarrow> store \<Rightarrow> request \<Rightarrow> store \<times> outcome" where
  "external_transfer ev s rq =
     (if bearer_token (authorization rq) \<noteq> Some (VALID_API_KEY ev) then
        (s, Respond 403 (ErrorOnly ''Invalid API Key''))
      else (case amount (body rq) of
        None \<Rightarrow> (s, Respond 400 (ErrorOnly ''Invalid input''))
      | Some a \<Rightarrow>
     (if senderEmail (body rq) = [] \<or> to_email (body rq) = [] \<or> a = 0 then
        (s, Respond 400 (ErrorOnly ''Invalid input''))
      else (case getUserByEmail s (senderEmail (body rq)) of
        Inl e \<Rightarrow> (s, Respond 500 (ErrorOnly ''Something went wrong''))
      | Inr (s1, sender) \<Rightarrow>
          (case getUserByEmail s1 (to_email (body rq)) of
             Inl e \<Rightarrow> (s1, Respond 500 (ErrorOnly ''Something went wrong''))
           | Inr (s2, receiver) \<Rightarrow>
               (case sender of
                  None \<Rightarrow> (s2, Respond 404 (ErrorOnly ''Sender not found''))
                | Some sd \<Rightarrow>
                    (case receiver of
                       None \<Rightarrow> (s2, Respond 404 (ErrorOnly ''Receiver not found''))
                     | Some rc \<Rightarrow>
                         (if balance sd < a then
                            (s2, Respond 400 (ErrorOnly ''Insufficient balance''))
                          else (case updateUser ev s2 (uid sd)
                                       (balance_patch (dbl (balance sd - a))) of
                            Inl e \<Rightarrow> (s2, Respond 500 (ErrorOnly ''Something went wrong''))
                          | Inr (s3, _) \<Rightarrow>
                              (case updateUser ev s3 (uid rc)
                                      (balance_patch (dbl (balance rc + a))) of
                                 Inl e \<Rightarrow> (s3, Respond 500 (ErrorOnly ''Something went wrong''))
                               | Inr (s4, _) \<Rightarrow>
                                   (case createTransaction s4 (Some a) (uid sd) (uid rc)
                                           (Some ''External transfer via API'') of
                                      Inl e \<Rightarrow>
                                        (s4, Respond 500 (ErrorOnly ''Something went wrong''))
                                    | Inr (s5, _) \<Rightarrow>
                                        (s5, Respond 200
                                               (ExternalDone (dbl (balance sd - a))
                                                  (dbl (balance rc + a)))))))))))))))"

section \<open>Middleware and routing\<close>

text \<open>
  \<open>isAuthenticated\<close> lets a request pass when the session carries a verified user and
  answers it otherwise.
\<close>

definition isAuthenticated :: "request \<Rightarrow> outcome" where
  "isAuthenticated rq =
     (case req_user rq of
        None \<Rightarrow> Respond 401 (Message ''Unauthorized'')
      | Some u \<Rightarrow>
          if \<not> isVerified u then Respond 403 (VerificationRequired ''Email verification required'')
          else Next)"

text \<open>
  The part of the web framework the routes rely on. A route is a method, a path and a
  chain of handlers. A request runs through the routes in the order of their
  registration; in a matching route the chain runs until a handler answers or forwards
  an error, and only a handler that calls \<open>next()\<close> hands the request on. The chain
  records which handlers ran.
\<close>

datatype handler_id =
    ExternalTransfer | IsAuthenticated | SendMoney | UserTransfer | SessionTransfer
  | ValidateApiKey | CheckApiKeyPermission | ApiKeyTransfer

type_synonym handler = "store \<Rightarrow> request \<Rightarrow> store \<times> request \<times> outcome"

record route =
  r_method :: string
  r_path :: string
  r_chain :: "(handler_id \<times> handler) list"

fun run_chain ::
    "(handler_id \<times> handler) list \<Rightarrow> store \<Rightarrow> request \<Rightarrow>
       (store \<times> request \<times> outcome) \<times> handler_id list" where
  "run_chain [] s rq = ((s, rq, Next), [])"
| "run_chain ((h, f) # hs) s rq =
     (case f s rq of
        (s', rq', Next) \<Rightarrow> (case run_chain hs s' rq' of (res, tr) \<Rightarrow> (res, h # tr))
      | (s', rq', out) \<Rightarrow> ((s', rq', out), [h]))"

fun dispatch ::
    "route list \<Rightarrow> store \<Rightarrow> request \<Rightarrow> (store \<times> outcome) \<times> handler_id list" where
  "dispatch [] s rq = ((s, Next), [])"
| "dispatch (r # rs) s rq =
     (if r_method r = req_method rq \<and> r_path r = req_path rq then
        (case run_chain (r_chain r) s rq of
           ((s', rq', Next), tr) \<Rightarrow>
             (case dispatch rs s' rq' of (res, tr') \<Rightarrow> (res, tr @ tr'))
         | ((s', rq', out), tr) \<Rightarrow> ((s', out), tr))
      else dispatch rs s rq)"

text \<open>
  The transfer handlers as chain members. They run behind \<open>isAuthenticated\<close>; without a
  session user the first access to a field of \<open>req.user\<close> throws inside \<open>try\<close>.
\<close>

definition isAuthenticated_mw :: handler where
  "isAuthenticated_mw s rq = (s, rq, isAuthenticated rq)"

definition session_handler ::
    "(store \<Rightarrow> user \<Rightarrow> transfer_body \<Rightarrow> store \<times> outcome) \<Rightarrow> handler" where
  "session_handler f s rq =
     (case req_user rq of
        None \<Rightarrow> (s, rq, Forward TypeError)
      | Some u \<Rightarrow> (case f s u (body rq) of (s', out) \<Rightarrow> (s', rq, out)))"

definition external_handler :: "env \<Rightarrow> handler" where
  "external_handler ev s rq = (case external_transfer ev s rq of (s', out) \<Rightarrow> (s', rq, out))"

text \<open>
  The registrations of \<open>registerRoutes\<close> on the transfer paths, in source order; every
  other registration is on another path. The chain of the last one (\<open>validateApiKey\<close>,
  \<open>checkApiKeyPermission("transfer")\<close> and the handler applying
  \<open>apiKeyTransferSchema\<close>) is taken as three arbitrary handlers.
\<close>

definition registerRoutes :: "env \<Rightarrow> handler \<Rightarrow> handler \<Rightarrow> handler \<Rightarrow> route list" where
  "registerRoutes ev validateApiKey checkApiKeyPermission apiKeyTransfer =
     [\<lparr>r_method = ''POST'', r_path = ''/api/transactions/send-money'',
       r_chain = [(IsAuthenticated, isAuthenticated_mw),
                  (SendMoney, session_handler (send_money ev))]\<rparr>,
      \<lparr>r_method = ''POST'', r_path = ''/api/user/transfer'',
       r_chain = [(IsAuthenticated, isAuthenticated_mw),
                  (UserTransfer, session_handler (user_transfer ev))]\<rparr>,
      \<lparr>r_method = ''POST'', r_path = ''/api/transfer'',
       r_chain = [(IsAuthenticated, isAuthenticated_mw),
                  (SessionTransfer, session_handler (session_transfer ev))]\<rparr>,
      \<lparr>r_method = ''POST'', r_path = ''/api/transfer'',
       r_chain = [(ValidateApiKey, validateApiKey),
                  (CheckApiKeyPermission, checkApiKeyPermission),
                  (ApiKeyTransfer, apiKeyTransfer)]\<rparr>]"

text \<open>The application: the entry file registers its own handler, then calls \<open>registerRoutes\<close>.\<close>

definition app_routes :: "env \<Rightarrow> handler \<Rightarrow> handler \<Rightarrow> handler \<Rightarrow> route list" where
  "app_routes ev validateApiKey checkApiKeyPermission apiKeyTransfer =
     \<lparr>r_method = ''POST'', r_path = ''/api/transfer'',
      r_chain = [(ExternalTransfer, external_handler ev)]\<rparr>
     # registerRoutes ev validateApiKey checkApiKeyPermission apiKeyTransfer"

section \<open>Password routes\<close>

text \<open>
  POST /api/reset-password. \<open>updatePasswordSchema\<close> wants an e-mail address, a code of six
  characters and a new password of at least eight; a body that fails it makes \<open>parse\<close>
  throw. The new password goes to \<open>updateUser\<close> as it arrived.
\<close>

record reset_body =
  rb_email :: string
  rb_code :: string
  rb_newPassword :: string

definition updatePasswordSchema :: "env \<Rightarrow> reset_body \<Rightarrow> bool" where
  "updatePasswordSchema ev b \<longleftrightarrow>
     isEmail ev (rb_email b) \<and> length (rb_code b) = 6 \<and> 8 \<le> length (rb_newPassword b)"

definition password_patch :: "string \<Rightarrow> user_patch" where
  "password_patch w = no_patch\<lparr>p_password := Some w\<rparr>"

definition reset_password :: "env \<Rightarrow> store \<Rightarrow> reset_body \<Rightarrow> store \<times> outcome" where
  "reset_password ev s b =
     (if \<not> updatePasswordSchema ev b then (s, Forward ZodError)
      else (case getOtpCode ev s (rb_email b) (rb_code b) ''password-reset'' of
        Inl e \<Rightarrow> (s, Forward e)
      | Inr (s1, None) \<Rightarrow> (s1, Respond 400 (Message ''Invalid or expired OTP''))
      | Inr (s1, Some otp) \<Rightarrow>
          (case o_userId otp of
             None \<Rightarrow> (s1, Respond 400 (Message ''No user associated with this OTP''))
           | Some i \<Rightarrow>
               (if i = 0 then (s1, Respond 400 (Message ''No user associated with this OTP''))
                else (case markOtpAsUsed s1 (o_id otp) of
                  Inl e \<Rightarrow> (s1, Forward e)
                | Inr s2 \<Rightarrow>
                    (case updateUser ev s2 i (password_patch (rb_newPassword b)) of
                       Inl e \<Rightarrow> (s2, Forward e)
                     | Inr (s3, _) \<Rightarrow>
                         (s3, Respond 200 (Message ''Password reset successfully''))))))))"

text \<open>
  PATCH /api/profile, after \<open>isAuthenticated\<close>. Absent optional fields are \<open>None\<close>.
  \<open>updateProfileSchema\<close> wants a name of at least two characters, an e-mail address and a
  new password of at least eight, each only when present.
\<close>

record profile_body =
  pb_name :: "string option"
  pb_email :: "string option"
  pb_currentPassword :: "string option"
  pb_newPassword :: "string option"

definition updateProfileSchema :: "env \<Rightarrow> profile_body \<Rightarrow> bool" where
  "updateProfileSchema ev b \<longleftrightarrow>
     (case pb_name b of None \<Rightarrow> True | Some n \<Rightarrow> 2 \<le> length n) \<and>
     (case pb_email b of None \<Rightarrow> True | Some e \<Rightarrow> isEmail ev e) \<and>
     (case pb_newPassword b of None \<Rightarrow> True | Some w \<Rightarrow> 8 \<le> length w)"

definition without_password :: "user \<Rightarrow> payload" where
  "without_password u = UserJson (uid u) (name u) (email u) (balance u) (isVerified u) (isAdmin u)"

definition profile_patch :: "env \<Rightarrow> profile_body \<Rightarrow> user_patch" where
  "profile_patch ev b =
     no_patch\<lparr>p_name := pb_name b, p_email := pb_email b,
              p_password := (case pb_newPassword b of
                               None \<Rightarrow> None
                             | Some w \<Rightarrow> if w \<noteq> [] then Some (hashPassword ev w) else None)\<rparr>"

definition email_taken :: "store \<Rightarrow> user \<Rightarrow> profile_body \<Rightarrow> error + (store \<times> bool)" where
  "email_taken s u b =
     (case pb_email b of
        None \<Rightarrow> Inr (s, False)
      | Some e \<Rightarrow>
          if e \<noteq> [] \<and> e \<noteq> email u then
            (case getUserByEmail s e of
               Inl x \<Rightarrow> Inl x
             | Inr (s1, existing) \<Rightarrow> Inr (s1, existing \<noteq> None))
          else Inr (s, False))"

definition update_profile :: "env \<Rightarrow> store \<Rightarrow> user \<Rightarrow> profile_body \<Rightarrow> store \<times> outcome" where
  "update_profile ev s u b =
     (if \<not> updateProfileSchema ev b then (s, Forward ZodError)
      else (case email_taken s u b of
        Inl e \<Rightarrow> (s, Forward e)
      | Inr (s1, True) \<Rightarrow> (s1, Respond 400 (Message ''Email already in use''))
      | Inr (s1, False) \<Rightarrow>
          (case updateUser ev s1 (uid u) (profile_patch ev b) of
             Inl e \<Rightarrow> (s1, Forward e)
           | Inr (s2, None) \<Rightarrow> (s2, Respond 404 (Message ''User not found''))
           | Inr (s2, Some updated) \<Rightarrow> (s2, Respond 200 (without_password updated)))))"

text \<open>
  GET /api/user/password. The handler has no \<open>try\<close>: a rejected query is left unhandled.
\<close>

definition get_user_password :: "store \<Rightarrow> request \<Rightarrow> store \<times> outcome" where
  "get_user_password s rq =
     (case isAuthenticated rq of
        Next \<Rightarrow>
          (case req_user rq of
             None \<Rightarrow> (s, Respond 401 (Message ''Unauthorized''))
           | Some caller \<Rightarrow>
               (case getUser s (uid caller) of
                  Inl e \<Rightarrow> (s, Unhandled e)
                | Inr (s1, None) \<Rightarrow> (s1, Respond 404 (Message ''User not found''))
                | Inr (s1, Some u) \<Rightarrow>
                    (if isAdmin u then (s1, Respond 200 (PasswordJson (password u)))
                     else (s1, Respond 200
                                 (PasswordJson ''Only admin users can view password hashes'')))))
      | out \<Rightarrow> (s, out))"

section \<open>Observations on the database\<close>

definition sum_balances :: "store \<Rightarrow> int" where
  "sum_balances s = sum_list (map balance (users s))"

definition balance_of :: "store \<Rightarrow> nat \<Rightarrow> int option" where
  "balance_of s i = map_option balance (find (\<lambda>u. uid u = i) (users s))"

section \<open>A small bank for concrete runs\<close>

text \<open>
  An environment whose hash prefixes a password with \<open>#\<close>, and the accounts of the
  scenario: A with 1000 and B with 500.
\<close>

definition demo_env :: env where
  "demo_env = \<lparr>hashPassword = (\<lambda>w. CHR ''#'' # w),
                comparePasswords = (\<lambda>supplied stored. stored = CHR ''#'' # supplied),
                isEmail = (\<lambda>e. CHR ''@'' \<in> set e),
                COINE_API_KEY = None, now = 100\<rparr>"

definition alice :: user where
  "alice = \<lparr>uid = 1, name = ''Alice'', email = ''a@x.io'', password = ''#alicepw1'',
             balance = 1000, isVerified = True, isAdmin = False\<rparr>"

definition bob :: user where
  "bob = \<lparr>uid = 2, name = ''Bob'', email = ''b@x.io'', password = ''#bobpw123'',
           balance = 500, isVerified = True, isAdmin = False\<rparr>"

definition carol :: user where
  "carol = \<lparr>uid = 3, name = ''Carol'', email = ''c@x.io'', password = ''#carolpw1'',
             balance = 0, isVerified = True, isAdmin = True\<rparr>"

definition bank :: store where
  "bank = \<lparr>users = [alice, bob], transactions = [], otpCodes = [], tx_seq = 0,
            fail_in = None, transporter = True, smtp_down = False\<rparr>"

definition pay :: "int \<Rightarrow> transfer_body" where
  "pay a = \<lparr>receiverEmail = ''b@x.io'', senderEmail = ''a@x.io'', to_email = ''b@x.io'',
             amount = Some a, req_password = ''alicepw1'', req_note = [],
             idempotencyKey = ''k1''\<rparr>"

text \<open>The same bank when B holds \<open>2^53\<close>, the last integer before the doubles thin out.\<close>

definition vault :: store where
  "vault = bank\<lparr>users := [alice, bob\<lparr>balance := 9007199254740992\<rparr>]\<rparr>"

definition pay_self :: "int \<Rightarrow> transfer_body" where
  "pay_self a = \<lparr>receiverEmail = ''a@x.io'', senderEmail = ''a@x.io'', to_email = ''a@x.io'',
                  amount = Some a, req_password = ''alicepw1'', req_note = [],
                  idempotencyKey = ''k2''\<rparr>"

definition post_transfer :: "user option \<Rightarrow> string option \<Rightarrow> transfer_body \<Rightarrow> request" where
  "post_transfer u h b = \<lparr>req_method = ''POST'', req_path = ''/api/transfer'',
                          authorization = h, req_user = u, body = b\<rparr>"



text \<open>
  A password-reset code for A with the request that redeems it, a database with an
  administrator, a request for the stored password, and a profile update that sets a new
  password.
\<close>

definition reset_req :: reset_body where
  "reset_req = \<lparr>rb_email = ''a@x.io'', rb_code = ''123456'', rb_newPassword = ''newsecret1''\<rparr>"

definition bank_otp :: store where
  "bank_otp = bank\<lparr>otpCodes := [\<lparr>o_id = 1, o_userId = Some 1, o_email = ''a@x.io'',
                                   o_code = ''123456'', o_purpose = ''password-reset'',
                                   o_expiresAt = 200, o_isUsed = False\<rparr>]\<rparr>"

definition office :: store where
  "office = \<lparr>users = [alice, bob, carol], transactions = [], otpCodes = [], tx_seq = 0,
              fail_in = None, transporter = True, smtp_down = False\<rparr>"

definition get_password :: "user \<Rightarrow> request" where
  "get_password u = \<lparr>req_method = ''GET'', req_path = ''/api/user/password'',
                      authorization = None, req_user = Some u, body = pay 0\<rparr>"

definition change_password :: profile_body where
  "change_password = \<lparr>pb_name = None, pb_email = None, pb_currentPassword = None,
                       pb_newPassword = Some ''newsecret1''\<rparr>"

definition pass_on :: handler where
  "pass_on s rq = (s, rq, Next)"

section \<open>Storage lemmas\<close>

lemma dbl_exact: "safe_int x \<Longrightarrow> dbl x = x"
  by (simp add: dbl_def safe_int_def)

lemma tick_cases:
  "tick s = Inl e \<Longrightarrow> fail_in s = Some 0 \<and> e = QueryFailed"
  "tick s = Inr s' \<Longrightarrow> users s' = users s \<and> transactions s' = transactions s \<and>
     otpCodes s' = otpCodes s \<and> tx_seq s' = tx_seq s \<and>
     transporter s' = transporter s \<and> smtp_down s' = smtp_down s"
  by (auto simp: tick_def split: option.splits nat.splits)

lemma tick_ok: "fail_in s = None \<Longrightarrow> tick s = Inr s"
  by (simp add: tick_def)

lemma tick_succeeds:
  assumes "fail_in s \<noteq> Some 0"
  shows "\<exists>s1. tick s = Inr s1 \<and> users s1 = users s \<and> transactions s1 = transactions s \<and>
           otpCodes s1 = otpCodes s \<and> tx_seq s1 = tx_seq s"
proof (cases "fail_in s")
  case None
  then show ?thesis by (simp add: tick_def)
next
  case (Some n)
  with assms obtain m where "n = Suc m" by (cases n) auto
  with Some show ?thesis by (simp add: tick_def)
qed

lemma apply_balance_patch: "apply_patch (hash_patch ev (balance_patch c)) u = u\<lparr>balance := c\<rparr>"
  by (simp add: apply_patch_def hash_patch_def balance_patch_def no_patch_def)



lemma getUserByEmail_Inr:
  "getUserByEmail s e = Inr (s', r) \<Longrightarrow>
     find (\<lambda>u. email u = e) (users s) = r \<and>
     users s' = users s \<and> transactions s' = transactions s \<and>
     otpCodes s' = otpCodes s \<and> tx_seq s' = tx_seq s"
  by (auto simp: getUserByEmail_def dest: tick_cases split: sum.splits)




lemma sendEmail_ok:
  "transporter s \<or> \<not> smtp_down s \<Longrightarrow> sendEmail s = Inr (s\<lparr>transporter := True\<rparr>)"
  by (cases s) (auto simp: sendEmail_def)

lemma notification_ok:
  "transporter s \<or> \<not> smtp_down s \<Longrightarrow>
     sendTransactionNotificationEmail s = Inr (s\<lparr>transporter := True\<rparr>)"
  by (simp add: sendTransactionNotificationEmail_def sendEmail_ok)

lemma warning_ok:
  "transporter s \<or> \<not> smtp_down s \<Longrightarrow>
     sendLowBalanceWarningEmail s = Inr (s\<lparr>transporter := True\<rparr>)"
  by (simp add: sendLowBalanceWarningEmail_def sendEmail_ok)

lemma getUserByEmail_ok:
  "fail_in s = None \<Longrightarrow> getUserByEmail s e = Inr (s, find (\<lambda>u. email u = e) (users s))"
  by (simp add: getUserByEmail_def tick_ok)

lemma createTransaction_ok:
  "fail_in s = None \<Longrightarrow>
     createTransaction s (Some a) sid rid n =
       Inr (s\<lparr>transactions := transactions s @
                 [\<lparr>t_id = Suc (tx_seq s), t_amount = a, t_senderId = sid,
                   t_receiverId = Some rid, t_note = n, t_status = ''completed''\<rparr>],
               tx_seq := Suc (tx_seq s)\<rparr>,
            \<lparr>t_id = Suc (tx_seq s), t_amount = a, t_senderId = sid,
              t_receiverId = Some rid, t_note = n, t_status = ''completed''\<rparr>)"
  by (simp add: createTransaction_def tick_ok Let_def)

lemma updateUser_balance_ok:
  "fail_in s = None \<Longrightarrow>
     updateUser ev s i (balance_patch c) =
       Inr (s\<lparr>users := map (\<lambda>u. if uid u = i then u\<lparr>balance := c\<rparr> else u) (users s)\<rparr>,
            find (\<lambda>u. uid u = i)
              (map (\<lambda>u. if uid u = i then u\<lparr>balance := c\<rparr> else u) (users s)))"
  by (simp add: updateUser_def tick_ok Let_def apply_balance_patch cong: if_cong)

lemma find_Some_set: "find P xs = Some x \<Longrightarrow> x \<in> set xs \<and> P x"
  by (induction xs) (auto split: if_splits)

lemma find_email_uid:
  "distinct (map uid us) \<Longrightarrow> find (\<lambda>u. email u = e) us = Some r \<Longrightarrow>
     find (\<lambda>u. uid u = uid r) us = Some r"
proof (induction us)
  case Nil
  then show ?case by simp
next
  case (Cons a us)
  show ?case
  proof (cases "email a = e")
    case True
    with Cons.prems show ?thesis by simp
  next
    case False
    with Cons.prems have r: "find (\<lambda>u. email u = e) us = Some r" by simp
    then have "r \<in> set us" by (simp add: find_Some_set)
    with Cons.prems have "uid a \<noteq> uid r" by auto
    with Cons r show ?thesis by simp
  qed
qed

lemma find_map_uid:
  "(\<And>v. uid (f v) = uid v) \<Longrightarrow>
     find (\<lambda>u. uid u = j) (map f us) = map_option f (find (\<lambda>u. uid u = j) us)"
  by (induction us) auto


lemmas run_defs = user_transfer_def send_money_def session_transfer_def external_transfer_def
  getUser_def getUserByEmail_def updateUser_def createTransaction_def tick_def
  sendTransactionNotificationEmail_def sendLowBalanceWarningEmail_def sendEmail_def
  hash_patch_def apply_patch_def balance_patch_def no_patch_def note_or_null_def Let_def
  dbl_def demo_env_def alice_def bob_def bank_def pay_def








section \<open>A validated transfer completes\<close>

text \<open>
  Claim C6, as amended. On POST /api/user/transfer, when the request carries a receiver
  e-mail, a positive amount and a password, the receiver exists, the sender (whose
  \<open>req.user\<close> is the stored row) is another account, the amount does not exceed the
  sender's balance, the password matches, no query rejects, the mail transporter exists
  or can be created, and the two balances and the receiver's new balance are integers of
  magnitude at most \<open>2^53\<close>, then the answer is 201, the sender's stored balance is lower
  by exactly the amount, the receiver's is higher by exactly the amount, and one
  transaction row with that amount and status \<open>completed\<close> has been inserted.
\<close>

theorem user_transfer_completes:
  assumes stored: "find (\<lambda>u. uid u = uid sender) (users s) = Some sender"
    and keys: "distinct (map uid (users s))"
    and healthy: "fail_in s = None"
    and mail: "transporter s \<or> \<not> smtp_down s"
    and fields: "receiverEmail b \<noteq> []" "amount b = Some a" "0 < a" "req_password b \<noteq> []"
    and found: "find (\<lambda>u. email u = receiverEmail b) (users s) = Some receiver"
    and other: "uid sender \<noteq> uid receiver"
    and funds: "a \<le> balance sender"
    and pw: "comparePasswords ev (req_password b) (password sender)"
    and exact: "safe_int (balance sender)" "safe_int (balance receiver)"
               "safe_int (balance receiver + a)"
  shows "\<exists>s' t. user_transfer ev s sender b =
             (s', Respond 201 (WithBalance ''Transaction successful'' t
                                 (balance sender - a))) \<and>
           balance_of s (uid sender) = Some (balance sender) \<and>
           balance_of s' (uid sender) = Some (balance sender - a) \<and>
           balance_of s (uid receiver) = Some (balance receiver) \<and>
           balance_of s' (uid receiver) = Some (balance receiver + a) \<and>
           transactions s' = transactions s @ [t] \<and>
           t_amount t = a \<and> t_senderId t = uid sender \<and>
           t_receiverId t = Some (uid receiver) \<and> t_status t = ''completed''"
proof -
  have rc: "find (\<lambda>u. uid u = uid receiver) (users s) = Some receiver"
    using keys found by (rule find_email_uid)
  have d: "dbl (balance sender - a) = balance sender - a"
    using fields funds exact by (intro dbl_exact) (simp add: safe_int_def)
  have c: "dbl (balance receiver + a) = balance receiver + a"
    using exact by (intro dbl_exact)
  show ?thesis
    using stored rc healthy mail fields found other funds pw
    by (simp add: user_transfer_def getUserByEmail_ok createTransaction_ok
        updateUser_balance_ok notification_ok warning_ok balance_of_def find_map_uid d c)
qed

text \<open>The scenario: A has 1000, B has 500, A sends 300; afterwards A has 700 and B 800.\<close>

theorem user_transfer_completes_witness:
  "\<exists>s' t. user_transfer demo_env bank alice (pay 300) =
            (s', Respond 201 (WithBalance ''Transaction successful'' t 700)) \<and>
          balance_of bank 1 = Some 1000 \<and> balance_of s' 1 = Some 700 \<and>
          balance_of bank 2 = Some 500 \<and> balance_of s' 2 = Some 800 \<and>
          transactions s' = [t] \<and> t_amount t = 300 \<and> t_senderId t = 1 \<and>
          t_receiverId t = Some 2 \<and> t_status t = ''completed''"
proof -
  have h1: "find (\<lambda>u. uid u = uid alice) (users bank) = Some alice"
    by (simp add: bank_def alice_def)
  have h2: "distinct (map uid (users bank))"
    by (simp add: bank_def alice_def bob_def)
  have h3: "fail_in bank = None"
    by (simp add: bank_def)
  have hm: "transporter bank \<or> \<not> smtp_down bank"
    by (simp add: bank_def)
  have h4: "receiverEmail (pay 300) \<noteq> []" "amount (pay 300) = Some 300" "(0::int) < 300"
    "req_password (pay 300) \<noteq> []"
    by (simp_all add: pay_def)
  have h5: "find (\<lambda>u. email u = receiverEmail (pay 300)) (users bank) = Some bob"
    by (simp add: bank_def alice_def bob_def pay_def)
  have h6: "uid alice \<noteq> uid bob"
    by (simp add: alice_def bob_def)
  have h7: "300 \<le> balance alice"
    by (simp add: alice_def)
  have h8: "comparePasswords demo_env (req_password (pay 300)) (password alice)"
    by (simp add: demo_env_def alice_def pay_def)
  have h9: "safe_int (balance alice)" "safe_int (balance bob)" "safe_int (balance bob + 300)"
    by (simp_all add: safe_int_def alice_def bob_def)
  from user_transfer_completes [OF h1 h2 h3 hm h4 h5 h6 h7 h8 h9]
  show ?thesis
    by (simp add: alice_def bob_def pay_def bank_def)
qed

text \<open>
  The claim as written names three conditions only. A request that meets them and
  carries a wrong password is answered 401: no balance changes and no transaction row is
  inserted.
\<close>

theorem transfer_validation_counterexample:
  "getUserByEmail bank (receiverEmail ((pay 300)\<lparr>req_password := ''wrongpw1''\<rparr>)) =
     Inr (bank, Some bob) \<and>
   uid alice \<noteq> uid bob \<and>
   amount ((pay 300)\<lparr>req_password := ''wrongpw1''\<rparr>) = Some 300 \<and>
   300 \<le> balance alice \<and>
   user_transfer demo_env bank alice ((pay 300)\<lparr>req_password := ''wrongpw1''\<rparr>) =
     (bank, Respond 401 (Message ''Incorrect password''))"
  by (simp add: user_transfer_def getUserByEmail_def tick_def bank_def alice_def bob_def
      pay_def demo_env_def)

section \<open>Conservation\<close>

text \<open>
  Claim C2 at two failing inputs. POST /api/transfer is answered by the entry file's
  handler, which has no self-transfer check: with a valid key and \<open>senderEmail\<close> and \<open>to\<close>
  both A's address, an amount of 300 is answered 200, A's row is written twice, the
  second time with the balance read before the debit plus the amount, and a transaction
  row is inserted; the sum of the balances rises from 1500 to 1800. And the balances are
  doubles: when B holds \<open>2^53\<close>, a transfer of 1 from A on POST /api/user/transfer is
  answered 201, A falls to 999 and B's new balance \<open>2^53 + 1\<close> is rounded to \<open>2^53\<close>; the
  sum falls by 1.
\<close>

theorem transfer_breaks_conservation:
  "snd (fst (dispatch (app_routes demo_env pass_on pass_on pass_on) bank
               (post_transfer None (Some ''Bearer seium1234554321'') (pay_self 300)))) =
     Respond 200 (ExternalDone 700 1300) \<and>
   snd (dispatch (app_routes demo_env pass_on pass_on pass_on) bank
          (post_transfer None (Some ''Bearer seium1234554321'') (pay_self 300))) =
     [ExternalTransfer] \<and>
   map balance (users (fst (fst (dispatch (app_routes demo_env pass_on pass_on pass_on) bank
          (post_transfer None (Some ''Bearer seium1234554321'') (pay_self 300)))))) =
     [1300, 500] \<and>
   map t_amount (transactions (fst (fst (dispatch (app_routes demo_env pass_on pass_on pass_on)
          bank (post_transfer None (Some ''Bearer seium1234554321'') (pay_self 300)))))) =
     [300] \<and>
   sum_balances bank = 1500 \<and>
   sum_balances (fst (fst (dispatch (app_routes demo_env pass_on pass_on pass_on) bank
          (post_transfer None (Some ''Bearer seium1234554321'') (pay_self 300))))) = 1800 \<and>
   snd (user_transfer demo_env vault alice (pay 1)) =
     Respond 201 (WithBalance ''Transaction successful''
        \<lparr>t_id = 1, t_amount = 1, t_senderId = 1, t_receiverId = Some 2,
          t_note = None, t_status = ''completed''\<rparr> 999) \<and>
   map balance (users vault) = [1000, 9007199254740992] \<and>
   map balance (users (fst (user_transfer demo_env vault alice (pay 1)))) =
     [999, 9007199254740992]"
  by (simp add: app_routes_def external_handler_def bearer_token_def VALID_API_KEY_def
      post_transfer_def pay_self_def sum_balances_def vault_def run_defs)

section \<open>Replayed requests\<close>




section \<open>A credit that fails after the debit\<close>




section \<open>Amounts that are not positive\<close>

text \<open>
  Claim C4 at a failing input. The session routes do not check the sign of the amount.
  POST /api/user/transfer with amount -300 from A to B is answered 201: a transaction row
  with amount -300 is inserted, A rises to 1300 and B falls to 200. POST
  /api/transactions/send-money with amount 0 is answered 201 and inserts a row.
\<close>

theorem nonpositive_amount_accepted:
  "snd (user_transfer demo_env bank alice (pay (- 300))) =
     Respond 201 (WithBalance ''Transaction successful''
        \<lparr>t_id = 1, t_amount = - 300, t_senderId = 1, t_receiverId = Some 2,
          t_note = None, t_status = ''completed''\<rparr> 1300) \<and>
   map balance (users (fst (user_transfer demo_env bank alice (pay (- 300))))) = [1300, 200] \<and>
   map t_amount (transactions (fst (user_transfer demo_env bank alice (pay (- 300))))) = [- 300] \<and>
   snd (send_money demo_env bank alice (pay 0)) =
     Respond 201 (WithTransaction ''Transaction successful''
        \<lparr>t_id = 1, t_amount = 0, t_senderId = 1, t_receiverId = Some 2,
          t_note = None, t_status = ''completed''\<rparr>) \<and>
   length (transactions (fst (send_money demo_env bank alice (pay 0)))) = 1"
  by (simp add: run_defs)

text \<open>
  Claim C5 at a failing input. From balances 1000 and 500, POST /api/user/transfer with
  amount -600 from A to B is answered 201 and leaves B at -100.
\<close>

theorem negative_amount_overdraws_receiver:
  "map balance (users bank) = [1000, 500] \<and>
   snd (user_transfer demo_env bank alice (pay (- 600))) =
     Respond 201 (WithBalance ''Transaction successful''
        \<lparr>t_id = 1, t_amount = - 600, t_senderId = 1, t_receiverId = Some 2,
          t_note = None, t_status = ''completed''\<rparr> 1600) \<and>
   map balance (users (fst (user_transfer demo_env bank alice (pay (- 600))))) = [1600, - 100]"
  by (simp add: run_defs)

section \<open>Transfers to oneself\<close>

text \<open>
  Claim C9, as amended. A transfer from a stored account to its own e-mail address
  changes no balance and inserts no transaction row, whatever the amount and the
  idempotency key, and is answered 400 (the lookup query succeeding). POST
  /api/transactions/send-money answers with the self-transfer error for every amount;
  POST /api/user/transfer checks the required fields first, so it answers with the
  self-transfer error when receiver e-mail, amount and password are present and the
  amount is not 0, and with the required-fields error otherwise.
\<close>

theorem self_transfer_rejected:
  assumes self: "receiverEmail b = email sender"
    and stored: "find (\<lambda>u. email u = email sender) (users s) = Some sender"
    and ok: "fail_in s \<noteq> Some 0"
  shows "(\<exists>s'. send_money ev s sender b =
                 (s', Respond 400 (Message ''Cannot send money to yourself'')) \<and>
               users s' = users s \<and> transactions s' = transactions s) \<and>
         (\<exists>s'. user_transfer ev s sender b =
                 (s', Respond 400 (Message
                    (if receiverEmail b = [] \<or> amount b = None \<or> amount b = Some 0 \<or>
                        req_password b = []
                     then ''Receiver email, amount and password are required''
                     else ''Cannot send money to yourself''))) \<and>
               users s' = users s \<and> transactions s' = transactions s)"
proof -
  from ok obtain s1 where t: "tick s = Inr s1" and u: "users s1 = users s"
      and tr: "transactions s1 = transactions s"
    using tick_succeeds by blast
  have g: "getUserByEmail s (receiverEmail b) = Inr (s1, Some sender)"
    using t u self stored by (simp add: getUserByEmail_def)
  show ?thesis
    using g u tr by (auto simp add: send_money_def user_transfer_def split: option.splits)
qed

theorem self_transfer_rejected_witness:
  "(\<exists>s'. send_money demo_env bank alice (pay_self 300) =
           (s', Respond 400 (Message ''Cannot send money to yourself'')) \<and>
         users s' = users bank \<and> transactions s' = transactions bank) \<and>
   (\<exists>s'. user_transfer demo_env bank alice (pay_self 300) =
           (s', Respond 400 (Message ''Cannot send money to yourself'')) \<and>
         users s' = users bank \<and> transactions s' = transactions bank)"
proof -
  have h1: "receiverEmail (pay_self 300) = email alice"
    by (simp add: pay_self_def alice_def)
  have h2: "find (\<lambda>u. email u = email alice) (users bank) = Some alice"
    by (simp add: bank_def alice_def)
  have h3: "fail_in bank \<noteq> Some 0"
    by (simp add: bank_def)
  from self_transfer_rejected [OF h1 h2 h3, of demo_env] show ?thesis
    by (simp add: pay_self_def)
qed

text \<open>
  The claim as written fails for the amount 0 on POST /api/user/transfer: the answer is
  the required-fields error, not the self-transfer error.
\<close>

theorem self_transfer_counterexample:
  "user_transfer demo_env bank alice (pay_self 0) =
     (bank, Respond 400 (Message ''Receiver email, amount and password are required'')) \<and>
   snd (user_transfer demo_env bank alice (pay_self 0)) \<noteq>
     Respond 400 (Message ''Cannot send money to yourself'')"
  by (simp add: user_transfer_def pay_self_def)

section \<open>The stored-password viewer\<close>

text \<open>
  Claim C10. GET /api/user/password, for a caller who passes \<open>isAuthenticated\<close> and whose
  row is stored: when the row is an administrator's the answer carries the stored
  password of that row; otherwise the answer is one fixed message, and it stays the same
  whatever passwords the database holds.
\<close>

theorem stored_password_only_for_admins:
  assumes auth: "isAuthenticated rq = Next"
    and caller: "req_user rq = Some c"
    and row: "find (\<lambda>u. uid u = uid c) (users s) = Some u"
    and ok: "fail_in s \<noteq> Some 0"
  shows "(isAdmin u \<longrightarrow>
            snd (get_user_password s rq) = Respond 200 (PasswordJson (password u))) \<and>
         (\<not> isAdmin u \<longrightarrow>
            snd (get_user_password s rq) =
              Respond 200 (PasswordJson ''Only admin users can view password hashes'') \<and>
            (\<forall>w. snd (get_user_password
                         (s\<lparr>users := map (\<lambda>v. v\<lparr>password := w v\<rparr>) (users s)\<rparr>) rq) =
                  snd (get_user_password s rq)))"
proof -
  from ok obtain s1 where t: "tick s = Inr s1" and u: "users s1 = users s"
    using tick_succeeds by blast
  have g: "getUser s (uid c) = Inr (s1, Some u)"
    using t u row by (simp add: getUser_def)
  have a: "snd (get_user_password s rq) =
             Respond 200 (PasswordJson (if isAdmin u then password u
                                        else ''Only admin users can view password hashes''))"
    using auth caller g by (simp add: get_user_password_def)
  have b: "snd (get_user_password (s\<lparr>users := map (\<lambda>v. v\<lparr>password := w v\<rparr>) (users s)\<rparr>) rq) =
             Respond 200 (PasswordJson (if isAdmin u then w u
                                        else ''Only admin users can view password hashes''))" for w
  proof -
    let ?s = "s\<lparr>users := map (\<lambda>v. v\<lparr>password := w v\<rparr>) (users s)\<rparr>"
    have "fail_in ?s \<noteq> Some 0" using ok by simp
    then obtain s2 where t2: "tick ?s = Inr s2" and u2: "users s2 = users ?s"
      using tick_succeeds by blast
    have "getUser ?s (uid c) = Inr (s2, Some (u\<lparr>password := w u\<rparr>))"
      using t2 u2 row by (simp add: getUser_def find_map_uid)
    then show ?thesis
      using auth caller by (simp add: get_user_password_def)
  qed
  show ?thesis using a b by simp
qed

theorem stored_password_only_for_admins_witness:
  "snd (get_user_password office (get_password carol)) =
     Respond 200 (PasswordJson ''#carolpw1'') \<and>
   snd (get_user_password office (get_password alice)) =
     Respond 200 (PasswordJson ''Only admin users can view password hashes'') \<and>
   snd (get_user_password (office\<lparr>users := map (\<lambda>v. v\<lparr>password := ''other''\<rparr>) (users office)\<rparr>)
          (get_password alice)) =
     snd (get_user_password office (get_password alice))"
proof -
  have ha: "isAuthenticated (get_password carol) = Next" "isAuthenticated (get_password alice) = Next"
    by (simp_all add: isAuthenticated_def get_password_def carol_def alice_def)
  have hc: "req_user (get_password carol) = Some carol" "req_user (get_password alice) = Some alice"
    by (simp_all add: get_password_def)
  have hr: "find (\<lambda>u. uid u = uid carol) (users office) = Some carol"
    "find (\<lambda>u. uid u = uid alice) (users office) = Some alice"
    by (simp_all add: office_def alice_def bob_def carol_def)
  have ho: "fail_in office \<noteq> Some 0"
    by (simp add: office_def)
  from stored_password_only_for_admins [OF ha(1) hc(1) hr(1) ho]
    stored_password_only_for_admins [OF ha(2) hc(2) hr(2) ho]
  show ?thesis
    by (simp add: carol_def alice_def)
qed

section \<open>Password reset\<close>

lemma apply_password_patch:
  "w \<noteq> [] \<Longrightarrow> apply_patch (hash_patch ev (password_patch w)) u = u\<lparr>password := hashPassword ev w\<rparr>"
  by (simp add: apply_patch_def hash_patch_def password_patch_def no_patch_def)

lemma updateUser_password:
  "w \<noteq> [] \<Longrightarrow> updateUser ev s i (password_patch w) = Inr (s', r) \<Longrightarrow>
     users s' = map (\<lambda>u. if uid u = i then u\<lparr>password := hashPassword ev w\<rparr> else u) (users s)"
  by (auto simp: updateUser_def apply_password_patch Let_def dest: tick_cases split: sum.splits)

lemma getOtpCode_Inr:
  "getOtpCode ev s e c p = Inr (s', r) \<Longrightarrow>
     find (\<lambda>x. o_email x = e \<and> o_code x = c \<and> o_purpose x = p \<and> \<not> o_isUsed x \<and>
                now ev \<le> o_expiresAt x) (otpCodes s) = r \<and> users s' = users s"
  by (auto simp: getOtpCode_def dest: tick_cases split: sum.splits)

lemma markOtpAsUsed_Inr:
  "markOtpAsUsed s i = Inr s' \<Longrightarrow> users s' = users s"
  by (auto simp: markOtpAsUsed_def dest: tick_cases split: sum.splits)

text \<open>
  Claim C8, as amended. After a successful POST /api/reset-password the stored password
  of the user of the redeemed code is \<open>hashPassword\<close> of the new password: the route hands
  the new password to \<open>updateUser\<close>, which hashes every non-empty password it is given.
\<close>

theorem reset_password_stores_hash:
  assumes "reset_password ev s b = (s', Respond 200 (Message ''Password reset successfully''))"
  shows "\<exists>otp i. find (\<lambda>x. o_email x = rb_email b \<and> o_code x = rb_code b \<and>
                         o_purpose x = ''password-reset'' \<and> \<not> o_isUsed x \<and>
                         now ev \<le> o_expiresAt x) (otpCodes s) = Some otp \<and>
           o_userId otp = Some i \<and>
           users s' = map (\<lambda>u. if uid u = i
                                then u\<lparr>password := hashPassword ev (rb_newPassword b)\<rparr>
                                else u) (users s)"
proof -
  have ne: "rb_newPassword b \<noteq> []" if "updatePasswordSchema ev b"
    using that by (auto simp: updatePasswordSchema_def)
  show ?thesis
    using assms ne unfolding reset_password_def
    by (auto split: if_splits sum.splits option.splits prod.splits
        dest!: getOtpCode_Inr markOtpAsUsed_Inr dest: updateUser_password)
qed

lemmas reset_defs = reset_password_def updatePasswordSchema_def getOtpCode_def markOtpAsUsed_def
  updateUser_def tick_def hash_patch_def apply_patch_def password_patch_def no_patch_def Let_def
  demo_env_def alice_def bob_def bank_def bank_otp_def reset_req_def

theorem reset_password_stores_hash_witness:
  "reset_password demo_env bank_otp reset_req =
     (bank_otp\<lparr>users := [alice\<lparr>password := ''#newsecret1''\<rparr>, bob],
               otpCodes := [\<lparr>o_id = 1, o_userId = Some 1, o_email = ''a@x.io'',
                             o_code = ''123456'', o_purpose = ''password-reset'',
                             o_expiresAt = 200, o_isUsed = True\<rparr>]\<rparr>,
      Respond 200 (Message ''Password reset successfully'')) \<and>
   (\<exists>otp i. find (\<lambda>x. o_email x = rb_email reset_req \<and> o_code x = rb_code reset_req \<and>
                    o_purpose x = ''password-reset'' \<and> \<not> o_isUsed x \<and>
                    now demo_env \<le> o_expiresAt x) (otpCodes bank_otp) = Some otp \<and>
      o_userId otp = Some i \<and>
      [alice\<lparr>password := ''#newsecret1''\<rparr>, bob] =
        map (\<lambda>u. if uid u = i
                  then u\<lparr>password := hashPassword demo_env (rb_newPassword reset_req)\<rparr>
                  else u) (users bank_otp))"
proof -
  have e: "reset_password demo_env bank_otp reset_req =
     (bank_otp\<lparr>users := [alice\<lparr>password := ''#newsecret1''\<rparr>, bob],
               otpCodes := [\<lparr>o_id = 1, o_userId = Some 1, o_email = ''a@x.io'',
                             o_code = ''123456'', o_purpose = ''password-reset'',
                             o_expiresAt = 200, o_isUsed = True\<rparr>]\<rparr>,
      Respond 200 (Message ''Password reset successfully''))"
    by (simp add: reset_defs)
  from reset_password_stores_hash [OF e] e show ?thesis
    by simp
qed

text \<open>
  The claim as written fails: after A resets the password to \<open>newsecret1\<close> the stored
  password is its hash, not the string itself.
\<close>

theorem reset_password_counterexample:
  "snd (reset_password demo_env bank_otp reset_req) =
     Respond 200 (Message ''Password reset successfully'') \<and>
   rb_newPassword reset_req = ''newsecret1'' \<and>
   map password (users (fst (reset_password demo_env bank_otp reset_req))) =
     [''#newsecret1'', ''#bobpw123''] \<and>
   hashPassword demo_env ''newsecret1'' = ''#newsecret1''"
  by (simp add: reset_defs)

section \<open>Which handler answers POST /api/transfer\<close>

lemma external_transfer_answers: "external_transfer ev s rq = (s', out) \<Longrightarrow> out \<noteq> Next"
  by (auto simp: external_transfer_def split: if_splits sum.splits prod.splits option.splits)

lemma session_transfer_answers: "session_transfer ev s u b = (s', out) \<Longrightarrow> out \<noteq> Next"
  by (auto simp: session_transfer_def split: if_splits sum.splits prod.splits option.splits)

lemma run_chain_single:
  "f s rq = (s', rq', out) \<Longrightarrow> out \<noteq> Next \<Longrightarrow> run_chain [(h, f)] s rq = ((s', rq', out), [h])"
  by (cases out) simp_all

lemma run_chain_pass:
  "f s rq = (s', rq', Next) \<Longrightarrow>
     run_chain ((h, f) # hs) s rq = (fst (run_chain hs s' rq'), h # snd (run_chain hs s' rq'))"
  by (simp split: prod.splits)

lemma run_chain_pass_or_stop:
  "f s rq = (s', rq', out) \<Longrightarrow> out \<noteq> Next \<Longrightarrow>
     run_chain ((h, f) # hs) s rq = ((s', rq', out), [h])"
  by (cases out) simp_all

lemma dispatch_answered:
  "r_method r = req_method rq \<Longrightarrow> r_path r = req_path rq \<Longrightarrow>
     run_chain (r_chain r) s rq = ((s', rq', out), tr) \<Longrightarrow> out \<noteq> Next \<Longrightarrow>
     dispatch (r # rs) s rq = ((s', out), tr)"
  by (cases out) simp_all

text \<open>
  Claim C7, as amended. Every POST request to /api/transfer is answered by the handler
  that the entry file registers before \<open>registerRoutes\<close>: it is the only handler that runs,
  so neither the session-authenticated handler nor the API-key chain runs. Among the
  registrations of \<open>registerRoutes\<close> alone, the session-authenticated route answers every
  such request (\<open>isAuthenticated\<close>, and the handler when \<open>isAuthenticated\<close> passes), so the
  API-key chain registered after it never runs, whatever its three handlers do.
\<close>

theorem post_api_transfer_routing:
  assumes m: "req_method rq = ''POST''" and p: "req_path rq = ''/api/transfer''"
  shows "dispatch (app_routes ev validateApiKey checkApiKeyPermission apiKeyTransfer) s rq =
           (external_transfer ev s rq, [ExternalTransfer]) \<and>
         snd (dispatch (registerRoutes ev validateApiKey checkApiKeyPermission apiKeyTransfer) s rq) =
           (if isAuthenticated rq = Next then [IsAuthenticated, SessionTransfer]
            else [IsAuthenticated])"
proof -
  obtain s' out where e: "external_transfer ev s rq = (s', out)"
    by (cases "external_transfer ev s rq")
  then have o: "out \<noteq> Next" by (rule external_transfer_answers)
  have h: "external_handler ev s rq = (s', rq, out)"
    using e by (simp add: external_handler_def)
  have a: "dispatch (app_routes ev validateApiKey checkApiKeyPermission apiKeyTransfer) s rq =
             (external_transfer ev s rq, [ExternalTransfer])"
  proof -
    have rc: "run_chain [(ExternalTransfer, external_handler ev)] s rq =
                ((s', rq, out), [ExternalTransfer])"
      using h o by (rule run_chain_single [where f = "external_handler ev"])
    show ?thesis
      unfolding app_routes_def e
      by (rule dispatch_answered [OF _ _ _ o]) (simp_all add: m p rc del: run_chain.simps)
  qed
  let ?tail = "[\<lparr>r_method = ''POST'', r_path = ''/api/transfer'',
                  r_chain = [(ValidateApiKey, validateApiKey),
                             (CheckApiKeyPermission, checkApiKeyPermission),
                             (ApiKeyTransfer, apiKeyTransfer)]\<rparr>]"
  let ?session = "\<lparr>r_method = ''POST'', r_path = ''/api/transfer'',
                   r_chain = [(IsAuthenticated, isAuthenticated_mw),
                              (SessionTransfer, session_handler (session_transfer ev))]\<rparr>"
  have skip: "dispatch (registerRoutes ev validateApiKey checkApiKeyPermission apiKeyTransfer) s rq =
                dispatch (?session # ?tail) s rq"
    using p by (simp add: registerRoutes_def)
  have b: "snd (dispatch (?session # ?tail) s rq) =
           (if isAuthenticated rq = Next then [IsAuthenticated, SessionTransfer]
            else [IsAuthenticated])"
  proof (cases "isAuthenticated rq = Next")
    case True
    then obtain u where u: "req_user rq = Some u"
      by (auto simp: isAuthenticated_def split: option.splits if_splits)
    obtain s2 out2 where e2: "session_transfer ev s u (body rq) = (s2, out2)"
      by (cases "session_transfer ev s u (body rq)")
    then have o2: "out2 \<noteq> Next" by (rule session_transfer_answers)
    have h2: "session_handler (session_transfer ev) s rq = (s2, rq, out2)"
      using u e2 by (simp add: session_handler_def)
    have c1: "run_chain [(SessionTransfer, session_handler (session_transfer ev))] s rq =
                ((s2, rq, out2), [SessionTransfer])"
      using h2 o2 by (rule run_chain_single [where f = "session_handler (session_transfer ev)"])
    have c0: "isAuthenticated_mw s rq = (s, rq, Next)"
      using True by (simp add: isAuthenticated_mw_def)
    have c: "run_chain (r_chain ?session) s rq = ((s2, rq, out2), [IsAuthenticated, SessionTransfer])"
      by (simp add: run_chain_pass [where f = isAuthenticated_mw, OF c0] c1 del: run_chain.simps)
    have "dispatch (?session # ?tail) s rq = ((s2, out2), [IsAuthenticated, SessionTransfer])"
      by (rule dispatch_answered [OF _ _ c o2]) (simp_all add: m p)
    with True show ?thesis by simp
  next
    case False
    have c0: "isAuthenticated_mw s rq = (s, rq, isAuthenticated rq)"
      by (simp add: isAuthenticated_mw_def)
    have c: "run_chain (r_chain ?session) s rq = ((s, rq, isAuthenticated rq), [IsAuthenticated])"
      using False by (simp add: run_chain_pass_or_stop [where f = isAuthenticated_mw, OF c0] del: run_chain.simps)
    have "dispatch (?session # ?tail) s rq = ((s, isAuthenticated rq), [IsAuthenticated])"
      by (rule dispatch_answered [OF _ _ c False]) (simp_all add: m p)
    with False show ?thesis by simp
  qed
  from a b skip show ?thesis by simp
qed

theorem post_api_transfer_routing_witness:
  "dispatch (app_routes demo_env pass_on pass_on pass_on) bank
       (post_transfer (Some alice) None (pay 300)) =
     (external_transfer demo_env bank (post_transfer (Some alice) None (pay 300)),
      [ExternalTransfer]) \<and>
   snd (dispatch (registerRoutes demo_env pass_on pass_on pass_on) bank
          (post_transfer (Some alice) None (pay 300))) =
     [IsAuthenticated, SessionTransfer] \<and>
   snd (dispatch (registerRoutes demo_env pass_on pass_on pass_on) bank
          (post_transfer None None (pay 300))) =
     [IsAuthenticated]"
proof -
  have m: "req_method (post_transfer u h b) = ''POST''" for u h b
    by (simp add: post_transfer_def)
  have p: "req_path (post_transfer u h b) = ''/api/transfer''" for u h b
    by (simp add: post_transfer_def)
  from post_api_transfer_routing [OF m p, of demo_env pass_on pass_on pass_on bank "Some alice" None "pay 300"]
    post_api_transfer_routing [OF m p, of demo_env pass_on pass_on pass_on bank None None "pay 300"]
  show ?thesis
    by (simp add: isAuthenticated_def post_transfer_def alice_def)
qed

text \<open>
  The claim as written fails: a request of the logged-in user A is answered 403 by the
  entry file's handler, and the session-authenticated handler does not run.
\<close>

theorem post_api_transfer_counterexample:
  "dispatch (app_routes demo_env pass_on pass_on pass_on) bank
       (post_transfer (Some alice) None (pay 300)) =
     ((bank, Respond 403 (ErrorOnly ''Invalid API Key'')), [ExternalTransfer])"
  by (simp add: app_routes_def external_handler_def external_transfer_def bearer_token_def
      post_transfer_def)

section \<open>Further observations\<close>

lemma apply_profile_patch:
  "pb_newPassword b = Some w \<Longrightarrow> w \<noteq> [] \<Longrightarrow> hashPassword ev w \<noteq> [] \<Longrightarrow>
     password (apply_patch (hash_patch ev (profile_patch ev b)) v) =
       hashPassword ev (hashPassword ev w)"
  by (simp add: apply_patch_def hash_patch_def profile_patch_def no_patch_def)

text \<open>
  PATCH /api/profile hashes a new password and hands the hash to \<open>updateUser\<close>, which
  hashes it again: the stored password is the hash of the hash.
\<close>

theorem profile_password_hashed_twice:
  assumes answered: "update_profile ev s u b = (s', Respond 200 p)"
    and new: "pb_newPassword b = Some w"
    and nonempty: "hashPassword ev w \<noteq> []"
  shows "map password (filter (\<lambda>v. uid v = uid u) (users s')) =
           map (\<lambda>v. hashPassword ev (hashPassword ev w)) (filter (\<lambda>v. uid v = uid u) (users s))"
proof -
  have w: "w \<noteq> []" if "updateProfileSchema ev b"
    using that new by (auto simp: updateProfileSchema_def)
  have et: "email_taken s u b = Inr (s1, t) \<Longrightarrow> users s1 = users s" for s1 t
    by (auto simp: email_taken_def dest!: getUserByEmail_Inr
        split: option.splits if_splits sum.splits prod.splits)
  have up: "updateUser ev s1 (uid u) (profile_patch ev b) = Inr (s2, r) \<Longrightarrow>
            users s2 = map (\<lambda>v. if uid v = uid u
                                 then apply_patch (hash_patch ev (profile_patch ev b)) v
                                 else v) (users s1)" for s1 s2 r
    by (auto simp: updateUser_def Let_def dest: tick_cases split: sum.splits)
  have pw: "map password (filter (\<lambda>v. uid v = uid u)
              (map (\<lambda>v. if uid v = uid u
                         then apply_patch (hash_patch ev (profile_patch ev b)) v
                         else v) us)) =
            map (\<lambda>v. hashPassword ev (hashPassword ev w)) (filter (\<lambda>v. uid v = uid u) us)"
    if "w \<noteq> []" for us
    using that new nonempty
    by (induction us) (auto simp: apply_profile_patch, simp_all add: apply_patch_def)
  show ?thesis
    using answered w unfolding update_profile_def
    by (auto split: if_splits sum.splits option.splits prod.splits bool.splits
        dest!: et up simp: pw)
qed

lemmas profile_defs = update_profile_def updateProfileSchema_def email_taken_def profile_patch_def
  without_password_def updateUser_def tick_def hash_patch_def apply_patch_def no_patch_def Let_def
  demo_env_def alice_def bob_def bank_def change_password_def

theorem profile_password_hashed_twice_witness:
  "update_profile demo_env bank alice change_password =
     (bank\<lparr>users := [alice\<lparr>password := ''##newsecret1''\<rparr>, bob]\<rparr>,
      Respond 200 (UserJson 1 ''Alice'' ''a@x.io'' 1000 True False)) \<and>
   map password (filter (\<lambda>v. uid v = uid alice) [alice\<lparr>password := ''##newsecret1''\<rparr>, bob]) =
     map (\<lambda>v. hashPassword demo_env (hashPassword demo_env ''newsecret1''))
       (filter (\<lambda>v. uid v = uid alice) (users bank))"
proof -
  have e: "update_profile demo_env bank alice change_password =
     (bank\<lparr>users := [alice\<lparr>password := ''##newsecret1''\<rparr>, bob]\<rparr>,
      Respond 200 (UserJson 1 ''Alice'' ''a@x.io'' 1000 True False))"
    by (simp add: profile_defs)
  have n: "pb_newPassword change_password = Some ''newsecret1''"
    by (simp add: change_password_def)
  have h: "hashPassword demo_env ''newsecret1'' \<noteq> []"
    by (simp add: demo_env_def)
  from profile_password_hashed_twice [OF e n h] e show ?thesis
    by simp
qed

end
